theory Spec2Isabelle
  imports Complex_Main
begin

section \<open>Text primitives\<close>

text \<open>
  Python strings are modelled as Isabelle strings: a text is a list of 8-bit characters, read as
  the code points U+0000 to U+00FF. Within this range the regular-expression class
  \<^verbatim>\<open>\d\<close> is exactly the ten ASCII digits, and \<^verbatim>\<open>\s\<close> is the set of code points for which
  Python's \<^verbatim>\<open>str.isspace\<close> holds. Python floats are modelled by the real number a decimal
  literal denotes; rounding to binary64 is not modelled.
\<close>

definition is_digit :: "char \<Rightarrow> bool" where
  "is_digit c = (c \<in> set ''0123456789'')"

definition is_space :: "char \<Rightarrow> bool" where
  "is_space c = (c \<in> set [CHR 0x09, CHR 0x0A, CHR 0x0B, CHR 0x0C, CHR 0x0D,
                           CHR 0x1C, CHR 0x1D, CHR 0x1E, CHR 0x1F, CHR 0x20,
                           CHR 0x85, CHR 0xA0])"

definition is_digit_or_comma :: "char \<Rightarrow> bool" where
  "is_digit_or_comma c = (is_digit c \<or> c = CHR '','')"

text \<open>\<^verbatim>\<open>str.lower\<close> on one code point below U+0100: the ASCII capitals and the Latin-1
  capitals U+00C0 to U+00DE (the multiplication sign U+00D7 apart) move up by 32.\<close>

definition lower_char :: "char \<Rightarrow> char" where
  "lower_char c =
     (let n = (of_char c :: nat)
      in if (65 \<le> n \<and> n \<le> 90) \<or> (192 \<le> n \<and> n \<le> 222 \<and> n \<noteq> 215)
         then char_of (n + 32) else c)"

definition lower :: "string \<Rightarrow> string" where
  "lower s = map lower_char s"

text \<open>\<^verbatim>\<open>s.replace(',', '')\<close>.\<close>

definition remove_commas :: "string \<Rightarrow> string" where
  "remove_commas s = filter (\<lambda>c. c \<noteq> CHR '','') s"

definition digit_val :: "char \<Rightarrow> nat" where
  "digit_val c = of_char c - 48"

text \<open>The number written by a string of decimal digits, most significant digit first.\<close>

definition nat_of_digits :: "string \<Rightarrow> nat" where
  "nat_of_digits ds = foldl (\<lambda>acc c. 10 * acc + digit_val c) 0 ds"

text \<open>
  \<^verbatim>\<open>float(s)\<close> on the strings the extractor passes to it: a captured group with its commas
  removed, that is digits with at most one dot. \<^verbatim>\<open>float\<close> accepts such a string exactly when
  it holds at least one digit; \<open>None\<close> stands for the \<^verbatim>\<open>ValueError\<close>. Signs, exponents,
  underscores, surrounding blanks and the words for infinity and NaN cannot occur in a captured
  group and are answered by \<open>None\<close> here.
\<close>

definition py_float :: "string \<Rightarrow> real option" where
  "py_float s =
     (let ip = takeWhile is_digit s; r = dropWhile is_digit s
      in case r of
           [] \<Rightarrow> if ip = [] then None else Some (real (nat_of_digits ip))
         | c # fp \<Rightarrow>
             if c = CHR ''.'' \<and> list_all is_digit fp \<and> (ip \<noteq> [] \<or> fp \<noteq> [])
             then Some (real (nat_of_digits ip) + real (nat_of_digits fp) / 10 ^ length fp)
             else None)"

section \<open>Regular expressions with one capture group\<close>

text \<open>
  The fragment of Python's \<^verbatim>\<open>re\<close> syntax that the price patterns use. Matching is by
  backtracking: \<open>rx_match r (s, cap)\<close> lists, in the order in which the backtracking matcher
  tries them, every way \<open>r\<close> can match a prefix of \<open>s\<close>, as the remaining text and the
  text captured so far. Quantifiers are greedy, alternatives are tried left to right.
\<close>

datatype rx =
    Lit char                  \<comment> \<open>a literal character\<close>
  | Star "char \<Rightarrow> bool"       \<comment> \<open>\<^verbatim>\<open>c*\<close> for a character class\<close>
  | Plus "char \<Rightarrow> bool"       \<comment> \<open>\<^verbatim>\<open>c+\<close> for a character class\<close>
  | Opt rx                    \<comment> \<open>\<^verbatim>\<open>r?\<close>\<close>
  | Alt rx rx                 \<comment> \<open>\<^verbatim>\<open>r|s\<close>\<close>
  | Seq rx rx                 \<comment> \<open>concatenation\<close>
  | Grp rx                    \<comment> \<open>the capture group \<^verbatim>\<open>(r)\<close>\<close>

type_synonym mstate = "string \<times> string option"

fun rx_match :: "rx \<Rightarrow> mstate \<Rightarrow> mstate list" where
  "rx_match (Lit c) (s, cap) =
     (case s of [] \<Rightarrow> [] | x # xs \<Rightarrow> if x = c then [(xs, cap)] else [])"
| "rx_match (Star p) (s, cap) =
     map (\<lambda>k. (drop k s, cap)) (rev [0 ..< Suc (length (takeWhile p s))])"
| "rx_match (Plus p) (s, cap) =
     map (\<lambda>k. (drop k s, cap)) (rev [1 ..< Suc (length (takeWhile p s))])"
| "rx_match (Opt r) (s, cap) = rx_match r (s, cap) @ [(s, cap)]"
| "rx_match (Alt r1 r2) (s, cap) = rx_match r1 (s, cap) @ rx_match r2 (s, cap)"
| "rx_match (Seq r1 r2) (s, cap) = concat (map (rx_match r2) (rx_match r1 (s, cap)))"
| "rx_match (Grp r) (s, cap) =
     map (\<lambda>(s', c). (s', Some (take (length s - length s') s))) (rx_match r (s, cap))"

text \<open>The match that begins at the head of the text: the first success of the matcher.\<close>

definition match_here :: "rx \<Rightarrow> string \<Rightarrow> mstate option" where
  "match_here r s = (case rx_match r (s, None) of [] \<Rightarrow> None | m # _ \<Rightarrow> Some m)"

text \<open>
  \<^verbatim>\<open>re.findall\<close> for a pattern with one group: scan from the left, at each position take the
  match that begins there if there is one, record the group and go on behind the match;
  otherwise go on one character further. A group that took no part in the match is reported
  as the empty string. After an empty match the scan moves one character on; no pattern of the
  price extractor has an empty match (\<open>price_patterns_consume\<close> below).
\<close>

function findall :: "rx \<Rightarrow> string \<Rightarrow> string list" where
  "findall r s =
     (case match_here r s of
        None \<Rightarrow> (case s of [] \<Rightarrow> [] | _ # t \<Rightarrow> findall r t)
      | Some (rest, cap) \<Rightarrow>
          (case cap of None \<Rightarrow> [] | Some g \<Rightarrow> g) #
          (if length rest < length s then findall r rest
           else (case s of [] \<Rightarrow> [] | _ # t \<Rightarrow> findall r t)))"
  by pat_completeness auto
termination
  by (relation "measure (\<lambda>(r, s). length s)") auto

text \<open>The least number of characters a match of a pattern takes.\<close>

fun min_len :: "rx \<Rightarrow> nat" where
  "min_len (Lit c) = 1"
| "min_len (Star p) = 0"
| "min_len (Plus p) = 1"
| "min_len (Opt r) = 0"
| "min_len (Alt r1 r2) = min (min_len r1) (min_len r2)"
| "min_len (Seq r1 r2) = min_len r1 + min_len r2"
| "min_len (Grp r) = min_len r"

section \<open>The price extractor\<close>

definition lit :: "string \<Rightarrow> rx" where
  "lit s = foldr (\<lambda>c r. Seq (Lit c) r) (butlast s) (Lit (last s))"

text \<open>The amount \<^verbatim>\<open>\$?([\d,]+\.?\d*)\<close>, and the tail \<^verbatim>\<open>:?\s*\$?([\d,]+\.?\d*)\<close> that four
  of the five label patterns share.\<close>

definition amount_group :: rx where
  "amount_group =
     Grp (Seq (Plus is_digit_or_comma) (Seq (Opt (Lit CHR ''.'')) (Star is_digit)))"

definition dollar_amount :: rx where
  "dollar_amount = Seq (Opt (Lit CHR ''$'')) amount_group"

definition label_tail :: rx where
  "label_tail = Seq (Opt (Lit CHR '':'')) (Seq (Star is_space) dollar_amount)"

text \<open>
  The five label patterns, in the order of the source:
  \<^enum> \<^verbatim>\<open>total:?\s*\$?([\d,]+\.?\d*)\<close>
  \<^enum> \<^verbatim>\<open>total\s*(?:cost|price|amount):?\s*\$?([\d,]+\.?\d*)\<close>
  \<^enum> \<^verbatim>\<open>grand\s*total:?\s*\$?([\d,]+\.?\d*)\<close>
  \<^enum> \<^verbatim>\<open>\$?([\d,]+\.?\d*)\s*total\<close>
  \<^enum> \<^verbatim>\<open>quoted\s*(?:price|amount):?\s*\$?([\d,]+\.?\d*)\<close>
\<close>

definition pattern_total :: rx where
  "pattern_total = Seq (lit ''total'') label_tail"

definition pattern_total_kind :: rx where
  "pattern_total_kind =
     Seq (lit ''total'') (Seq (Star is_space)
       (Seq (Alt (lit ''cost'') (Alt (lit ''price'') (lit ''amount''))) label_tail))"

definition pattern_grand_total :: rx where
  "pattern_grand_total =
     Seq (lit ''grand'') (Seq (Star is_space) (Seq (lit ''total'') label_tail))"

definition pattern_amount_total :: rx where
  "pattern_amount_total = Seq dollar_amount (Seq (Star is_space) (lit ''total''))"

definition pattern_quoted :: rx where
  "pattern_quoted =
     Seq (lit ''quoted'') (Seq (Star is_space)
       (Seq (Alt (lit ''price'') (lit ''amount'')) label_tail))"

definition patterns :: "rx list" where
  "patterns = [pattern_total, pattern_total_kind, pattern_grand_total,
               pattern_amount_total, pattern_quoted]"

text \<open>The value of a pattern's last match, when the pattern matches and the text of that match
  is a number.\<close>

definition last_match_value :: "rx \<Rightarrow> string \<Rightarrow> real option" where
  "last_match_value p text =
     (case findall p text of
        [] \<Rightarrow> None
      | m # ms \<Rightarrow> py_float (remove_commas (last (m # ms))))"

text \<open>The loop over the patterns: a pattern without a match, or whose last match is not a
  number, hands over to the next one.\<close>

fun label_pass :: "rx list \<Rightarrow> string \<Rightarrow> real option" where
  "label_pass [] text = None"
| "label_pass (p # ps) text =
     (case last_match_value p text of
        Some v \<Rightarrow> Some v
      | None \<Rightarrow> label_pass ps text)"

text \<open>The fallback: every amount in the text as written, those above 100 kept.\<close>

definition fallback_amounts :: "string \<Rightarrow> real list" where
  "fallback_amounts content =
     filter (\<lambda>v. v > 100)
       (List.map_filter (\<lambda>a. py_float (remove_commas a)) (findall dollar_amount content))"

definition extract_price_from_message :: "string \<Rightarrow> real option" where
  "extract_price_from_message content =
     (case label_pass patterns (lower content) of
        Some v \<Rightarrow> Some v
      | None \<Rightarrow>
          (case fallback_amounts content of
             [] \<Rightarrow> None
           | a # as \<Rightarrow> Some (foldl max a as)))"

section \<open>Stored data\<close>

text \<open>
  The three tables. A nullable column is an option; \<open>negotiation_round\<close> and \<open>status\<close> are
  always written with their defaults when a row is created. Times are readings of the clock.
\<close>

record negotiation_session =
  sess_id :: int
  opportunity_id :: string
  opportunity_title :: string
  opportunity_data :: string
  target_price :: real
  extracted_requirements :: "string option"
  sess_status :: string
  sess_created_at :: nat

record supplier =
  sup_id :: int
  session_id :: int
  company_name :: string
  industry :: string
  initial_price :: "real option"
  final_price :: "real option"
  status :: string
  negotiation_round :: int
  sup_created_at :: nat

record message =
  msg_id :: int
  supplier_id :: int
  sender :: string
  content :: string
  price_mentioned :: "real option"
  created_at :: nat

record db =
  sessions :: "negotiation_session list"
  suppliers :: "supplier list"
  messages :: "message list"

definition empty_db :: db where
  "empty_db = \<lparr>sessions = [], suppliers = [], messages = []\<rparr>"

text \<open>An integer primary key: one more than the largest key of the table.\<close>

definition next_id :: "int list \<Rightarrow> int" where
  "next_id ids = foldl max 0 ids + 1"

definition get_session :: "db \<Rightarrow> int \<Rightarrow> negotiation_session option" where
  "get_session d i = find (\<lambda>s. sess_id s = i) (sessions d)"

definition get_supplier :: "db \<Rightarrow> int \<Rightarrow> supplier option" where
  "get_supplier d i = find (\<lambda>s. sup_id s = i) (suppliers d)"

text \<open>Writing a changed supplier row back under its key.\<close>

definition put_supplier :: "supplier \<Rightarrow> db \<Rightarrow> db" where
  "put_supplier s d =
     d\<lparr>suppliers := map (\<lambda>x. if sup_id x = sup_id s then s else x) (suppliers d)\<rparr>"

text \<open>\<^verbatim>\<open>Message.query.filter_by(supplier_id=..., sender='supplier')\<close>.\<close>

definition supplier_sent :: "db \<Rightarrow> int \<Rightarrow> message list" where
  "supplier_sent d i =
     filter (\<lambda>m. supplier_id m = i \<and> sender m = ''supplier'') (messages d)"

text \<open>\<^verbatim>\<open>supplier.messages\<close>: the supplier's messages in the order of their creation times.\<close>

definition messages_of :: "db \<Rightarrow> int \<Rightarrow> message list" where
  "messages_of d i = sort_key created_at (filter (\<lambda>m. supplier_id m = i) (messages d))"

text \<open>
  \<^verbatim>\<open>.order_by(Message.created_at.desc()).first()\<close>: a row whose creation time is the largest.
  Among rows of equal time the database is free to choose; the model takes the one stored last.
\<close>

fun latest :: "message list \<Rightarrow> message option" where
  "latest [] = None"
| "latest (m # ms) =
     (case latest ms of
        None \<Rightarrow> Some m
      | Some m' \<Rightarrow> if created_at m' < created_at m then Some m else Some m')"

section \<open>JSON values and the outside services\<close>

datatype json =
    JNull
  | JBool bool
  | JNum real
  | JStr string
  | JArr "json list"
  | JObj "(string \<times> json) list"

datatype error = NotFound | ServerError

text \<open>
  What the program obtains from outside itself is a parameter of the model: the string hash of
  the running interpreter, the JSON codec, and the completion service. A completion is given as
  a function of the values its prompt is built from; \<open>None\<close> means that building the prompt
  or the call raised. An upload answers with the handle of the stored file; the completion of
  the document analysis answers with its text, or with the message of the exception raised.
\<close>

record services =
  py_hash :: "string \<Rightarrow> int"
  json_loads :: "string \<Rightarrow> json option"
  json_dumps :: "json \<Rightarrow> string"
  unicode_escape :: "string \<Rightarrow> string option"
  requirements_completion :: "json \<Rightarrow> string option"
  initial_request_completion :: "json \<Rightarrow> json \<Rightarrow> string \<Rightarrow> string \<Rightarrow> string option"
  supplier_completion :: "string \<Rightarrow> json \<Rightarrow> message list \<Rightarrow> int \<Rightarrow> real \<Rightarrow> string option"
  buyer_completion :: "message list \<Rightarrow> json \<Rightarrow> int \<Rightarrow> string option"
  upload_file :: "string \<Rightarrow> string option"
  analysis_completion :: "string list \<Rightarrow> string + string"

text \<open>\<^verbatim>\<open>d.get(key, default)\<close>; \<open>None\<close> when the value is no dictionary.\<close>

definition json_get :: "json \<Rightarrow> string \<Rightarrow> json \<Rightarrow> json option" where
  "json_get j k dflt =
     (case j of
        JObj kvs \<Rightarrow> (case map_of kvs k of None \<Rightarrow> Some dflt | Some v \<Rightarrow> Some v)
      | _ \<Rightarrow> None)"

section \<open>Pricing strategy\<close>

text \<open>\<^verbatim>\<open>str(n)\<close> for an integer.\<close>

fun nat_digits :: "nat \<Rightarrow> string" where
  "nat_digits n =
     (if n < 10 then [char_of (48 + n)]
      else nat_digits (n div 10) @ [char_of (48 + n mod 10)])"

definition py_str :: "int \<Rightarrow> string" where
  "py_str i = (if i < 0 then CHR ''-'' # nat_digits (nat (- i)) else nat_digits (nat i))"

definition price_multiplier :: "(string \<Rightarrow> int) \<Rightarrow> string \<Rightarrow> int \<Rightarrow> real" where
  "price_multiplier h name round_num =
     (if round_num = 0 then 1.5 + real_of_int (h name mod 30) / 100
      else if round_num = 1 then 1.25 + real_of_int (h (name @ py_str round_num) mod 20) / 100
      else 1.10 + real_of_int (h (name @ py_str round_num) mod 15) / 100)"

definition generate_supplier_response ::
  "services \<Rightarrow> string \<Rightarrow> json \<Rightarrow> message list \<Rightarrow> int \<Rightarrow> real \<Rightarrow> (string \<times> real) option" where
  "generate_supplier_response env name requirements msgs round_num target =
     (let suggested_price = target * price_multiplier (py_hash env) name round_num
      in case supplier_completion env name requirements msgs round_num suggested_price of
           None \<Rightarrow> None
         | Some reply \<Rightarrow> Some (reply, suggested_price))"

definition generate_negotiation_response ::
  "services \<Rightarrow> message list \<Rightarrow> json \<Rightarrow> int \<Rightarrow> string option" where
  "generate_negotiation_response env msgs requirements round_num =
     buyer_completion env msgs requirements round_num"

section \<open>Negotiation state machine\<close>

text \<open>\<^verbatim>\<open>extract_price_from_message(response) or price\<close>: a missing and a zero extraction both
  give way to the suggested price.\<close>

definition price_or :: "real option \<Rightarrow> real \<Rightarrow> real" where
  "price_or extracted price =
     (case extracted of None \<Rightarrow> price | Some v \<Rightarrow> if v = 0 then price else v)"

text \<open>
  \<^verbatim>\<open>respond_to_supplier\<close>. The request either fails, and nothing is stored, or commits all of
  its changes at the end.
\<close>

definition respond_to_supplier :: "services \<Rightarrow> nat \<Rightarrow> int \<Rightarrow> int \<Rightarrow> db \<Rightarrow> error + db" where
  "respond_to_supplier env now sid pid d =
     (case get_session d sid of
        None \<Rightarrow> Inl NotFound
      | Some session \<Rightarrow>
     (case get_supplier d pid of
        None \<Rightarrow> Inl NotFound
      | Some supplier \<Rightarrow>
     (case Option.bind (extracted_requirements session) (json_loads env) of
        None \<Rightarrow> Inl ServerError
      | Some requirements \<Rightarrow>
     (let first_reply = (length (supplier_sent d pid) = 0);
          round_num = (if first_reply then 0 else negotiation_round supplier)
      in case generate_supplier_response env (company_name supplier) requirements
                (messages_of d pid) round_num (target_price session) of
           None \<Rightarrow> Inl ServerError
         | Some (response, price) \<Rightarrow>
     (let supplier1 = (if first_reply
                  then supplier\<lparr>initial_price := Some price, status := ''negotiating''\<rparr>
                  else supplier);
          quoted = price_or (extract_price_from_message response) price;
          msg = \<lparr>msg_id = next_id (map msg_id (messages d)), supplier_id = pid,
                 sender = ''supplier'', content = response,
                 price_mentioned = Some quoted, created_at = now\<rparr>
      in if negotiation_round supplier1 < 2
         then
           (let supplier2 = supplier1\<lparr>negotiation_round := negotiation_round supplier1 + 1\<rparr>
            in case generate_negotiation_response env (messages_of d pid @ [msg])
                      requirements (negotiation_round supplier2) of
                 None \<Rightarrow> Inl ServerError
               | Some buyer_response \<Rightarrow>
                   (let buyer_msg =
                          \<lparr>msg_id = next_id (map msg_id (messages d)) + 1,
                           supplier_id = pid, sender = ''buyer'', content = buyer_response,
                           price_mentioned = None, created_at = now\<rparr>
                    in Inr (put_supplier supplier2 (d\<lparr>messages := messages d @ [msg, buyer_msg]\<rparr>))))
         else Inr (put_supplier (supplier1\<lparr>final_price := Some quoted\<rparr>)
                     (d\<lparr>messages := messages d @ [msg]\<rparr>)))))))"

text \<open>
  \<^verbatim>\<open>accept_quote\<close>. The session key of the route is not read. The test
  \<^verbatim>\<open>last_supplier_msg and last_supplier_msg.price_mentioned\<close> holds for a message whose price is
  neither missing nor zero.
\<close>

definition accept_quote :: "int \<Rightarrow> int \<Rightarrow> db \<Rightarrow> error + db" where
  "accept_quote sid pid d =
     (case get_supplier d pid of
        None \<Rightarrow> Inl NotFound
      | Some supplier \<Rightarrow>
          (let supplier1 = supplier\<lparr>status := ''completed''\<rparr>;
               supplier2 = (case latest (supplier_sent d pid) of
                         None \<Rightarrow> supplier1
                       | Some m \<Rightarrow>
                           (case price_mentioned m of
                              None \<Rightarrow> supplier1
                            | Some p \<Rightarrow> if p = 0 then supplier1 else supplier1\<lparr>final_price := Some p\<rparr>))
           in Inr (put_supplier supplier2 d)))"

text \<open>
  \<^verbatim>\<open>create_negotiation\<close>. The body of the request, read: the opportunity, the target price,
  the additional requirements and the number of suppliers (5 when absent). A value that is
  stored in a string column is expected to be a JSON string.
\<close>

record negotiation_request =
  opportunity :: json
  targetPrice :: real
  additionalRequirements :: string
  numSuppliers :: int

definition json_text :: "json \<Rightarrow> string option" where
  "json_text j = (case j of JStr s \<Rightarrow> Some s | _ \<Rightarrow> None)"

text \<open>\<^verbatim>\<open>d[key]\<close>; \<open>None\<close> for the \<^verbatim>\<open>KeyError\<close> or \<^verbatim>\<open>TypeError\<close>.\<close>

definition json_item :: "json \<Rightarrow> string \<Rightarrow> json option" where
  "json_item j k = (case j of JObj kvs \<Rightarrow> map_of kvs k | _ \<Rightarrow> None)"

text \<open>The record that stands in when the reply of the completion service is not JSON.\<close>

definition default_requirements :: "json \<Rightarrow> json" where
  "default_requirements title =
     JObj [(''product_service'', title),
           (''quantity'', JStr ''As specified in RFP''),
           (''delivery_location'', JStr ''As specified''),
           (''key_requirements'',
              JArr [JStr ''Meet all RFP requirements'', JStr ''Timely delivery'',
                    JStr ''Quality assurance'']),
           (''certifications_needed'', JArr [JStr ''As required'']),
           (''timeline'', JStr ''As per contract''),
           (''industry_category'', JStr ''services''),
           (''suggested_suppliers'',
              JArr [JStr ''Federal Contractors Inc'', JStr ''Government Solutions LLC'',
                    JStr ''Contract Services Corp'', JStr ''Public Sector Partners'',
                    JStr ''Federal Supply Company''])]"

definition extract_requirements_from_opportunity :: "services \<Rightarrow> json \<Rightarrow> json option" where
  "extract_requirements_from_opportunity env opp =
     (case requirements_completion env opp of
        None \<Rightarrow> None
      | Some reply \<Rightarrow>
          (case json_loads env reply of
             Some requirements \<Rightarrow> Some requirements
           | None \<Rightarrow>
               map_option default_requirements
                 (json_get opp ''title'' (JStr ''Government Contract Services''))))"

text \<open>\<^verbatim>\<open>xs[:n]\<close>: a negative bound counts from the end.\<close>

definition slice_to :: "int \<Rightarrow> 'a list \<Rightarrow> 'a list" where
  "slice_to n xs = (if 0 \<le> n then take (nat n) xs else take (length xs - nat (- n)) xs)"

text \<open>The loop that fills the list of names up to the number asked for.\<close>

function pad_names :: "int \<Rightarrow> string list \<Rightarrow> string list" where
  "pad_names n names =
     (if int (length names) < n
      then pad_names n (names @ [''Qualified Contractor #'' @ py_str (int (length names) + 1)])
      else names)"
  by pat_completeness auto
termination
  by (relation "measure (\<lambda>(n, names). nat (n - int (length names)))") auto

definition supplier_names :: "json \<Rightarrow> int \<Rightarrow> string list option" where
  "supplier_names requirements n =
     (case json_get requirements ''suggested_suppliers'' (JArr []) of
        Some (JArr xs) \<Rightarrow> map_option (pad_names n) (those (map json_text (slice_to n xs)))
      | _ \<Rightarrow> None)"

text \<open>
  The loop over the names. Each supplier is committed as it is created, and with it the message
  of the supplier before; when building a supplier or the request for its first message raises,
  what was stored until then stays.
\<close>

fun create_suppliers ::
  "services \<Rightarrow> nat \<Rightarrow> negotiation_request \<Rightarrow> json \<Rightarrow> int \<Rightarrow> string list \<Rightarrow> db
     \<Rightarrow> db \<times> error option" where
  "create_suppliers env now req requirements sid [] d = (d, None)"
| "create_suppliers env now req requirements sid (name # names) d =
     (case Option.bind (json_get requirements ''industry_category'' (JStr ''general''))
             json_text of
        None \<Rightarrow> (d, Some ServerError)
      | Some ind \<Rightarrow>
     (let supplier = \<lparr>sup_id = next_id (map sup_id (suppliers d)), session_id = sid,
                      company_name = name, industry = ind,
                      initial_price = None, final_price = None, status = ''pending'',
                      negotiation_round = 0, sup_created_at = now\<rparr>;
          d1 = d\<lparr>suppliers := suppliers d @ [supplier]\<rparr>
      in case initial_request_completion env (opportunity req) requirements name
                (additionalRequirements req) of
           None \<Rightarrow> (d1, Some ServerError)
         | Some initial_message \<Rightarrow>
             create_suppliers env now req requirements sid names
               (d1\<lparr>messages := messages d1 @
                     [\<lparr>msg_id = next_id (map msg_id (messages d1)),
                       supplier_id = sup_id supplier, sender = ''buyer'',
                       content = initial_message, price_mentioned = None,
                       created_at = now\<rparr>]\<rparr>)))"

definition create_negotiation ::
  "services \<Rightarrow> nat \<Rightarrow> negotiation_request \<Rightarrow> db \<Rightarrow> db \<times> error option" where
  "create_negotiation env now req d =
     (case extract_requirements_from_opportunity env (opportunity req) of
        None \<Rightarrow> (d, Some ServerError)
      | Some requirements \<Rightarrow>
     (case Option.bind (json_item (opportunity req) ''id'') json_text of
        None \<Rightarrow> (d, Some ServerError)
      | Some oid \<Rightarrow>
     (case Option.bind (json_get (opportunity req) ''title'' (JStr ''Government Contract''))
             json_text of
        None \<Rightarrow> (d, Some ServerError)
      | Some title \<Rightarrow>
     (let session = \<lparr>sess_id = next_id (map sess_id (sessions d)), opportunity_id = oid,
                     opportunity_title = title,
                     opportunity_data = json_dumps env (opportunity req),
                     target_price = targetPrice req,
                     extracted_requirements = Some (json_dumps env requirements),
                     sess_status = ''active'', sess_created_at = now\<rparr>;
          d1 = d\<lparr>sessions := sessions d @ [session]\<rparr>
      in case supplier_names requirements (numSuppliers req) of
           None \<Rightarrow> (d1, Some ServerError)
         | Some names \<Rightarrow>
             create_suppliers env now req requirements (sess_id session) names d1))))"

text \<open>The states the three requests can lead to, from the empty database.\<close>

inductive reachable :: "db \<Rightarrow> bool" where
  init: "reachable empty_db"
| create: "reachable d \<Longrightarrow> create_negotiation env now req d = (d', r) \<Longrightarrow> reachable d'"
| respond: "reachable d \<Longrightarrow> respond_to_supplier env now sid pid d = Inr d' \<Longrightarrow> reachable d'"
| accept: "reachable d \<Longrightarrow> accept_quote sid pid d = Inr d' \<Longrightarrow> reachable d'"

section \<open>Document analysis\<close>

datatype py_exception = JSONDecodeError string | OtherException string

text \<open>
  \<^verbatim>\<open>parse_raw_output\<close>. Its handler catches every exception and returns \<^verbatim>\<open>None\<close>, which is
  the value \<open>JNull\<close>; the function itself never raises.
\<close>

definition strip_quotes :: "string \<Rightarrow> string" where
  "strip_quotes s =
     (if s \<noteq> [] \<and> hd s = CHR 0x22 \<and> last s = CHR 0x22 then butlast (tl s) else s)"

definition parse_raw_output :: "services \<Rightarrow> string \<Rightarrow> py_exception + json" where
  "parse_raw_output env raw_output =
     (case unicode_escape env raw_output of
        None \<Rightarrow> Inr JNull
      | Some cleaned_str \<Rightarrow>
          (case json_loads env (strip_quotes cleaned_str) of
             None \<Rightarrow> Inr JNull
           | Some result \<Rightarrow> Inr result))"

text \<open>What the view hands back: a JSON response with its status, or the bare value it
  returned.\<close>

datatype response = Response nat json | Returned json

definition analyze_solicitations :: "services \<Rightarrow> string list option \<Rightarrow> response" where
  "analyze_solicitations env urls =
     (case urls of
        None \<Rightarrow> Response 400 (JObj [(''error'', JStr ''Missing or invalid 'urls' array.'')])
      | Some us \<Rightarrow>
          if us = []
          then Response 400 (JObj [(''error'', JStr ''Missing or invalid 'urls' array.'')])
          else
            (let file_inputs = List.map_filter (upload_file env) us
             in if file_inputs = []
                then Response 500 (JObj [(''error'', JStr ''Failed to upload any files.'')])
                else
                  (case analysis_completion env file_inputs of
                     Inl e \<Rightarrow> Response 500 (JObj [(''error'', JStr e)])
                   | Inr raw_output \<Rightarrow>
                       (case parse_raw_output env raw_output of
                          Inr parsed_data \<Rightarrow> Returned parsed_data
                        | Inl (JSONDecodeError e) \<Rightarrow>
                            Response 502 (JObj [(''error'', JStr ''Failed to parse JSON''),
                                                (''details'', JStr e),
                                                (''raw_output'', JStr raw_output)])
                        | Inl (OtherException e) \<Rightarrow>
                            Response 500 (JObj [(''error'', JStr e)])))))"

section \<open>The effect of a request on the supplier row\<close>

text \<open>
  The row that a successful \<^verbatim>\<open>respond_to_supplier\<close> writes back, from the row it read, whether
  this was the first reply, the reply and the suggested price; and the row that
  \<^verbatim>\<open>accept_quote\<close> writes back, from the row it read and the latest message of the supplier.
\<close>

definition quoted_price :: "string \<Rightarrow> real \<Rightarrow> real" where
  "quoted_price response price = price_or (extract_price_from_message response) price"

definition responded :: "supplier \<Rightarrow> bool \<Rightarrow> string \<Rightarrow> real \<Rightarrow> supplier" where
  "responded s first_reply response price =
     s\<lparr>initial_price := (if first_reply then Some price else initial_price s),
       status := (if first_reply then ''negotiating'' else status s),
       negotiation_round :=
         (if negotiation_round s < 2 then negotiation_round s + 1 else negotiation_round s),
       final_price :=
         (if negotiation_round s < 2 then final_price s
          else Some (quoted_price response price))\<rparr>"

definition accepted :: "supplier \<Rightarrow> message option \<Rightarrow> supplier" where
  "accepted s last_msg =
     s\<lparr>status := ''completed'',
       final_price :=
         (case Option.bind last_msg price_mentioned of
            None \<Rightarrow> final_price s
          | Some p \<Rightarrow> if p = 0 then final_price s else Some p)\<rparr>"

section \<open>A sample installation\<close>

text \<open>
  Concrete services and stored data on which the definitions are run: an interpreter whose hash
  of a string is its length, a codec that knows the empty object only, a completion service
  with fixed replies, and a database holding two sessions with one supplier each.
\<close>

definition sample_services :: services where
  "sample_services =
     \<lparr>py_hash = (\<lambda>s. int (length s)),
      json_loads = (\<lambda>s. if s = ''{}'' then Some (JObj []) else None),
      json_dumps = (\<lambda>j. ''{}''),
      unicode_escape = Some,
      requirements_completion = (\<lambda>opp. Some ''{}''),
      initial_request_completion = (\<lambda>opp requirements name extra. Some ''Please send a quote''),
      supplier_completion =
        (\<lambda>name requirements msgs round_num price.
           Some (if length msgs < 6 then ''Total: $1,500'' else ''Total: $1,400'')),
      buyer_completion = (\<lambda>msgs requirements round_num. Some ''Please improve your offer''),
      upload_file = (\<lambda>url. Some ''file-1''),
      analysis_completion = (\<lambda>files. Inr ''I could not read the documents'')\<rparr>"

definition sample_session :: "int \<Rightarrow> real \<Rightarrow> negotiation_session" where
  "sample_session i target =
     \<lparr>sess_id = i, opportunity_id = ''RFP-1'', opportunity_title = ''Government Contract'',
      opportunity_data = ''{}'', target_price = target, extracted_requirements = Some ''{}'',
      sess_status = ''active'', sess_created_at = 0\<rparr>"

definition sample_supplier :: "int \<Rightarrow> int \<Rightarrow> supplier" where
  "sample_supplier i sid =
     \<lparr>sup_id = i, session_id = sid, company_name = ''Qualified Contractor #1'',
      industry = ''general'',
      initial_price = None, final_price = None, status = ''pending'',
      negotiation_round = 0, sup_created_at = 0\<rparr>"

definition sample_request :: "int \<Rightarrow> int \<Rightarrow> message" where
  "sample_request i pid =
     \<lparr>msg_id = i, supplier_id = pid, sender = ''buyer'', content = ''Please send a quote'',
      price_mentioned = None, created_at = 0\<rparr>"

definition sample_order :: "real \<Rightarrow> negotiation_request" where
  "sample_order target =
     \<lparr>opportunity = JObj [(''id'', JStr ''RFP-1'')], targetPrice = target,
      additionalRequirements = [], numSuppliers = 1\<rparr>"

definition sample_db :: db where
  "sample_db =
     \<lparr>sessions = [sample_session 1 1000, sample_session 2 5000],
      suppliers = [sample_supplier 1 1, sample_supplier 2 2],
      messages = [sample_request 1 1, sample_request 2 2]\<rparr>"


text \<open>Several \<^verbatim>\<open>respond\<close> requests for one supplier in a row, one clock tick apart.\<close>

fun respond_times :: "services \<Rightarrow> nat \<Rightarrow> int \<Rightarrow> int \<Rightarrow> nat \<Rightarrow> db \<Rightarrow> error + db" where
  "respond_times env now sid pid 0 d = Inr d"
| "respond_times env now sid pid (Suc n) d =
     (case respond_to_supplier env now sid pid d of
        Inl e \<Rightarrow> Inl e
      | Inr d1 \<Rightarrow> respond_times env (Suc now) sid pid n d1)"

text \<open>The round, the status and the final price of a supplier after a request.\<close>

definition supplier_view :: "error + db \<Rightarrow> int \<Rightarrow> (int \<times> string \<times> real option) option" where
  "supplier_view r pid =
     (case r of
        Inl e \<Rightarrow> None
      | Inr d \<Rightarrow>
          (case get_supplier d pid of
             None \<Rightarrow> None
           | Some s \<Rightarrow> Some (negotiation_round s, status s, final_price s)))"

text \<open>The initial and the final price of a supplier after a request.\<close>

definition supplier_prices :: "error + db \<Rightarrow> int \<Rightarrow> (real option \<times> real option) option" where
  "supplier_prices r pid =
     (case r of
        Inl e \<Rightarrow> None
      | Inr d \<Rightarrow>
          (case get_supplier d pid of
             None \<Rightarrow> None
           | Some s \<Rightarrow> Some (initial_price s, final_price s)))"

section \<open>Properties of the price extractor\<close>

declare findall.simps [simp del]
declare pad_names.simps [simp del]
declare nat_digits.simps [simp del]

lemmas float_eval = py_float_def nat_of_digits_def digit_val_def is_digit_def remove_commas_def

text \<open>A match takes at least the least length of its pattern, which is positive for the
  patterns of the price extractor.\<close>

lemma rx_match_consumes:
  "(rest, c) \<in> set (rx_match r (s, cap)) \<Longrightarrow> length rest + min_len r \<le> length s"
proof (induction r arbitrary: s cap rest c)
  case (Lit x)
  then show ?case by (cases s) (auto split: if_splits)
next
  case (Star p)
  then show ?case by auto
next
  case (Plus p)
  then obtain k where k: "1 \<le> k" "k \<le> length (takeWhile p s)" "rest = drop k s"
    by auto
  have "length (takeWhile p s) \<le> length s" by (rule length_takeWhile_le)
  with k show ?case by simp
next
  case (Opt r)
  then show ?case by fastforce
next
  case (Alt r1 r2)
  then show ?case by fastforce
next
  case (Seq r1 r2)
  from Seq.prems obtain mid c1 where
    "(mid, c1) \<in> set (rx_match r1 (s, cap))" "(rest, c) \<in> set (rx_match r2 (mid, c1))"
    by auto
  with Seq.IH have "length mid + min_len r1 \<le> length s" "length rest + min_len r2 \<le> length mid"
    by blast+
  then show ?case by simp
next
  case (Grp r)
  then show ?case by fastforce
qed

lemma match_here_consumes:
  "match_here r s = Some (rest, c) \<Longrightarrow> length rest + min_len r \<le> length s"
proof -
  assume "match_here r s = Some (rest, c)"
  then have "(rest, c) \<in> set (rx_match r (s, None))"
    by (auto simp: match_here_def split: list.splits)
  then show ?thesis by (rule rx_match_consumes)
qed

lemma price_patterns_consume: "list_all (\<lambda>p. 0 < min_len p) (dollar_amount # patterns)"
  by (simp add: patterns_def pattern_total_def pattern_total_kind_def pattern_grand_total_def
        pattern_amount_total_def pattern_quoted_def dollar_amount_def amount_group_def
        label_tail_def lit_def)







text \<open>The extractor on a text whose lowercase form, label matches and amounts are known: the
  first label pattern that yields a number decides, the amounts above 100 otherwise.\<close>

lemma extract_by_parts:
  assumes "lower t = t'"
    and "map (\<lambda>p. findall p t') patterns = ms"
    and "findall dollar_amount t = fb"
  shows "extract_price_from_message t =
     (case foldr (\<lambda>m r. case (case m of [] \<Rightarrow> None
                                | x # xs \<Rightarrow> py_float (remove_commas (last (x # xs)))) of
                           Some v \<Rightarrow> Some v | None \<Rightarrow> r) ms None of
        Some v \<Rightarrow> Some v
      | None \<Rightarrow>
          (case filter (\<lambda>v. v > 100) (List.map_filter (\<lambda>a. py_float (remove_commas a)) fb) of
             [] \<Rightarrow> None
           | a # as \<Rightarrow> Some (foldl max a as)))"
proof -
  have "label_pass ps t' =
          foldr (\<lambda>m r. case (case m of [] \<Rightarrow> None
                               | x # xs \<Rightarrow> py_float (remove_commas (last (x # xs)))) of
                          Some v \<Rightarrow> Some v | None \<Rightarrow> r) (map (\<lambda>p. findall p t') ps) None" for ps
    by (induction ps) (simp_all add: last_match_value_def cong: option.case_cong)
  then show ?thesis
    using assms
    by (simp add: extract_price_from_message_def fallback_amounts_def cong: option.case_cong)
qed















text \<open>
  C10. The dollar sign of the fallback pattern is optional: \<^verbatim>\<open>ships in 365 days\<close> holds no
  dollar sign and no label pattern matches it, and the extractor returns 365 as the price.
\<close>

theorem bare_number_taken_as_price:
  "CHR ''$'' \<notin> set ''ships in 365 days'' \<and>
   map (\<lambda>p. findall p (lower ''ships in 365 days'')) patterns = [[], [], [], [], []] \<and>
   findall dollar_amount ''ships in 365 days'' = [''365''] \<and>
   extract_price_from_message ''ships in 365 days'' = Some 365"
proof -
  have l: "lower ''ships in 365 days'' = ''ships in 365 days''" by code_simp
  have f: "map (\<lambda>p. findall p ''ships in 365 days'') patterns = [[], [], [], [], []]"
    by code_simp
  have fb: "findall dollar_amount ''ships in 365 days'' = [''365'']" by code_simp
  have "extract_price_from_message ''ships in 365 days'' = Some 365"
    by (simp add: extract_by_parts [OF l f fb] float_eval)
  with l f fb show ?thesis by simp
qed

section \<open>Properties of the pricing strategy\<close>

lemma mod_fraction_bounds:
  fixes h :: int and k :: int
  assumes "0 < k"
  shows "0 \<le> real_of_int (h mod k) / 100" and "real_of_int (h mod k) / 100 < real_of_int k / 100"
proof -
  have "0 \<le> h mod k" and "h mod k < k" using assms by simp_all
  then have "0 \<le> real_of_int (h mod k)" and "real_of_int (h mod k) < real_of_int k"
    by simp_all
  then show "0 \<le> real_of_int (h mod k) / 100"
    and "real_of_int (h mod k) / 100 < real_of_int k / 100"
    by simp_all
qed

text \<open>
  C7. The multiplier lies in [1.50, 1.80) at round 0, in [1.25, 1.45) at round 1 and in
  [1.10, 1.25) from round 2 on, whatever the company name and the hash of the interpreter, and
  the suggested price that comes back with the reply is the target price times the multiplier.
\<close>

theorem pricing_strategy_ranges:
  "(round_num = 0 \<longrightarrow>
      1.5 \<le> price_multiplier h name round_num \<and> price_multiplier h name round_num < 1.8) \<and>
   (round_num = 1 \<longrightarrow>
      1.25 \<le> price_multiplier h name round_num \<and> price_multiplier h name round_num < 1.45) \<and>
   (2 \<le> round_num \<longrightarrow>
      1.1 \<le> price_multiplier h name round_num \<and> price_multiplier h name round_num < 1.25) \<and>
   (generate_supplier_response env name requirements msgs round_num target = Some (reply, price)
      \<longrightarrow> price = target * price_multiplier (py_hash env) name round_num)"
proof (intro conjI impI)
  assume r: "round_num = 0"
  from mod_fraction_bounds [of 30 "h name"]
  show "1.5 \<le> price_multiplier h name round_num"
    and "price_multiplier h name round_num < 1.8"
    using r by (simp_all add: price_multiplier_def)
next
  assume r: "round_num = 1"
  from mod_fraction_bounds [of 20 "h (name @ py_str 1)"]
  show "1.25 \<le> price_multiplier h name round_num"
    and "price_multiplier h name round_num < 1.45"
    using r by (simp_all add: price_multiplier_def)
next
  assume r: "2 \<le> round_num"
  from mod_fraction_bounds [of 15 "h (name @ py_str round_num)"]
  show "1.1 \<le> price_multiplier h name round_num"
    and "price_multiplier h name round_num < 1.25"
    using r by (simp_all add: price_multiplier_def)
next
  assume "generate_supplier_response env name requirements msgs round_num target =
            Some (reply, price)"
  then show "price = target * price_multiplier (py_hash env) name round_num"
    by (auto simp: generate_supplier_response_def Let_def split: option.splits)
qed

theorem pricing_strategy_ranges_witness:
  "generate_supplier_response sample_services ''Acme Corp'' (JObj []) [] 0 1000 =
     Some (''Total: $1,500'', 1590) \<and>
   1590 = 1000 * price_multiplier (py_hash sample_services) ''Acme Corp'' 0 \<and>
   1.5 \<le> price_multiplier (py_hash sample_services) ''Acme Corp'' 0 \<and>
   price_multiplier (py_hash sample_services) ''Acme Corp'' 0 < 1.8"
proof -
  have g: "generate_supplier_response sample_services ''Acme Corp'' (JObj []) [] 0 1000 =
             Some (''Total: $1,500'', 1590)"
    by (simp add: generate_supplier_response_def sample_services_def price_multiplier_def)
  from pricing_strategy_ranges
         [of 0 "py_hash sample_services" "''Acme Corp''" sample_services "JObj []" "[]" 1000
             "''Total: $1,500''" 1590] g
  show ?thesis by simp
qed

section \<open>Properties of the document analysis\<close>

text \<open>
  C8 does not hold of the code. \<^verbatim>\<open>parse_raw_output\<close> catches the failure of either parse stage
  itself and returns \<^verbatim>\<open>None\<close>, so the caller's handler, which would answer 502 with the raw
  text, is never entered: no request is answered by that response, and a reply that is not
  JSON makes the view return \<^verbatim>\<open>None\<close>.
\<close>

theorem parse_failure_not_reported:
  "analyze_solicitations env urls \<noteq> Response 502 body \<and>
   parse_raw_output sample_services ''I could not read the documents'' = Inr JNull \<and>
   analyze_solicitations sample_services (Some [''https://sam.gov/rfp.pdf'']) = Returned JNull"
proof (intro conjI)
  show "analyze_solicitations env urls \<noteq> Response 502 body"
    by (auto simp: analyze_solicitations_def parse_raw_output_def Let_def
             split: option.splits sum.splits py_exception.splits)
  show "parse_raw_output sample_services ''I could not read the documents'' = Inr JNull"
    by (simp add: parse_raw_output_def sample_services_def strip_quotes_def)
  then show "analyze_solicitations sample_services (Some [''https://sam.gov/rfp.pdf'']) =
               Returned JNull"
    by (simp add: analyze_solicitations_def sample_services_def)
qed

section \<open>Properties of the negotiation state machine\<close>


lemma find_Some_key: "find (\<lambda>x. f x = i) xs = Some s \<Longrightarrow> f s = i"
  by (auto simp: find_Some_iff)

lemma find_map_put:
  "find (\<lambda>x. f x = i) xs = Some s \<Longrightarrow> f s' = i \<Longrightarrow>
   find (\<lambda>x. f x = i) (map (\<lambda>x. if f x = i then s' else x) xs) = Some s'"
  by (induction xs) (auto split: if_splits)

lemma find_map_other:
  "f s' = i \<Longrightarrow> q \<noteq> i \<Longrightarrow>
   find (\<lambda>x. f x = q) (map (\<lambda>x. if f x = i then s' else x) xs) = find (\<lambda>x. f x = q) xs"
  by (induction xs) (auto split: if_splits)


lemma get_supplier_key: "get_supplier d i = Some s \<Longrightarrow> sup_id s = i"
  unfolding get_supplier_def by (rule find_Some_key)

lemma get_supplier_put_same:
  "get_supplier d i = Some s \<Longrightarrow> sup_id s' = i \<Longrightarrow> get_supplier (put_supplier s' d) i = Some s'"
  unfolding get_supplier_def put_supplier_def by (simp add: find_map_put)

lemma get_supplier_put_other:
  "q \<noteq> sup_id s' \<Longrightarrow> get_supplier (put_supplier s' d) q = get_supplier d q"
  unfolding get_supplier_def put_supplier_def by (simp add: find_map_other)

lemma get_supplier_messages_upd [simp]:
  "get_supplier (d\<lparr>messages := ms\<rparr>) i = get_supplier d i"
  by (simp add: get_supplier_def)

lemma put_supplier_messages [simp]: "messages (put_supplier s d) = messages d"
  by (simp add: put_supplier_def)

lemma put_supplier_sessions [simp]: "sessions (put_supplier s d) = sessions d"
  by (simp add: put_supplier_def)

lemma respond_success:
  assumes "respond_to_supplier env now sid pid d = Inr d'"
  obtains session s requirements response price where
    "get_session d sid = Some session"
    "get_supplier d pid = Some s"
    "Option.bind (extracted_requirements session) (json_loads env) = Some requirements"
    "generate_supplier_response env (company_name s) requirements (messages_of d pid)
       (if supplier_sent d pid = [] then 0 else negotiation_round s) (target_price session) =
       Some (response, price)"
    "get_supplier d' pid = Some (responded s (supplier_sent d pid = []) response price)"
    "\<And>q. q \<noteq> pid \<Longrightarrow> get_supplier d' q = get_supplier d q"
    "sessions d' = sessions d"
    "suppliers d' = map (\<lambda>x. if sup_id x = pid then responded s (supplier_sent d pid = []) response price else x) (suppliers d)"
    "\<exists>m rest. messages d' = messages d @ m # rest \<and> supplier_id m = pid \<and> sender m = ''supplier'' \<and>
        content m = response \<and> price_mentioned m = Some (quoted_price response price) \<and>
        (\<forall>b\<in>set rest. sender b = ''buyer'')"
proof -
  from assms obtain session where a1: "get_session d sid = Some session"
    by (auto simp: respond_to_supplier_def split: option.splits)
  from assms a1 obtain s where a2: "get_supplier d pid = Some s"
    by (auto simp: respond_to_supplier_def split: option.splits)
  from assms a1 a2 obtain requirements where
    a3: "Option.bind (extracted_requirements session) (json_loads env) = Some requirements"
    by (auto simp: respond_to_supplier_def split: option.splits)
  from assms a1 a2 a3 obtain response price where
    a4: "generate_supplier_response env (company_name s) requirements (messages_of d pid)
       (if supplier_sent d pid = [] then 0 else negotiation_round s) (target_price session) =
       Some (response, price)"
    by (auto simp: respond_to_supplier_def Let_def split: option.splits)
  have k: "sup_id s = pid" using a2 by (rule get_supplier_key)
  have r: "sup_id (responded s (supplier_sent d pid = []) response price) = pid"
    using k by (simp add: responded_def)
  show ?thesis
  proof (cases "negotiation_round s < 2")
    case True
    with assms a1 a2 a3 a4 obtain buyer_response where
      d': "d' = put_supplier (responded s (supplier_sent d pid = []) response price)
             (d\<lparr>messages := messages d @
                [\<lparr>msg_id = next_id (map msg_id (messages d)), supplier_id = pid,
                  sender = ''supplier'', content = response,
                  price_mentioned = Some (quoted_price response price), created_at = now\<rparr>,
                 \<lparr>msg_id = next_id (map msg_id (messages d)) + 1, supplier_id = pid,
                  sender = ''buyer'', content = buyer_response,
                  price_mentioned = None, created_at = now\<rparr>]\<rparr>)"
      by (auto simp: respond_to_supplier_def Let_def responded_def quoted_price_def
               split: option.splits if_splits)
    show ?thesis
    proof (rule that [OF a1 a2 a3 a4])
      show "get_supplier d' pid = Some (responded s (supplier_sent d pid = []) response price)"
        unfolding d' using a2 r by (simp add: get_supplier_put_same)
      show "get_supplier d' q = get_supplier d q" if "q \<noteq> pid" for q
        unfolding d' using that r by (simp add: get_supplier_put_other)
      show "sessions d' = sessions d" unfolding d' by simp
      show "suppliers d' = map (\<lambda>x. if sup_id x = pid then responded s (supplier_sent d pid = []) response price else x) (suppliers d)"
        unfolding d' using r by (simp add: put_supplier_def)
      show "\<exists>m rest. messages d' = messages d @ m # rest \<and> supplier_id m = pid \<and>
              sender m = ''supplier'' \<and> content m = response \<and>
              price_mentioned m = Some (quoted_price response price) \<and>
              (\<forall>b\<in>set rest. sender b = ''buyer'')"
        unfolding d' by simp
    qed
  next
    case False
    with assms a1 a2 a3 a4 have
      d': "d' = put_supplier (responded s (supplier_sent d pid = []) response price)
             (d\<lparr>messages := messages d @
                [\<lparr>msg_id = next_id (map msg_id (messages d)), supplier_id = pid,
                  sender = ''supplier'', content = response,
                  price_mentioned = Some (quoted_price response price), created_at = now\<rparr>]\<rparr>)"
      by (auto simp: respond_to_supplier_def Let_def responded_def quoted_price_def
               split: option.splits if_splits)
    show ?thesis
    proof (rule that [OF a1 a2 a3 a4])
      show "get_supplier d' pid = Some (responded s (supplier_sent d pid = []) response price)"
        unfolding d' using a2 r by (simp add: get_supplier_put_same)
      show "get_supplier d' q = get_supplier d q" if "q \<noteq> pid" for q
        unfolding d' using that r by (simp add: get_supplier_put_other)
      show "sessions d' = sessions d" unfolding d' by simp
      show "suppliers d' = map (\<lambda>x. if sup_id x = pid then responded s (supplier_sent d pid = []) response price else x) (suppliers d)"
        unfolding d' using r by (simp add: put_supplier_def)
      show "\<exists>m rest. messages d' = messages d @ m # rest \<and> supplier_id m = pid \<and>
              sender m = ''supplier'' \<and> content m = response \<and>
              price_mentioned m = Some (quoted_price response price) \<and>
              (\<forall>b\<in>set rest. sender b = ''buyer'')"
        unfolding d' by simp
    qed
  qed
qed


lemma accept_result:
  "accept_quote sid pid d =
     (case get_supplier d pid of
        None \<Rightarrow> Inl NotFound
      | Some s \<Rightarrow> Inr (put_supplier (accepted s (latest (supplier_sent d pid))) d))"
  by (auto simp: accept_quote_def accepted_def Let_def split: option.splits)

lemma accept_success:
  assumes "accept_quote sid pid d = Inr d'"
  obtains s where
    "get_supplier d pid = Some s"
    "get_supplier d' pid = Some (accepted s (latest (supplier_sent d pid)))"
    "\<And>q. q \<noteq> pid \<Longrightarrow> get_supplier d' q = get_supplier d q"
    "sessions d' = sessions d" "messages d' = messages d"
    "suppliers d' = map (\<lambda>x. if sup_id x = pid then accepted s (latest (supplier_sent d pid)) else x) (suppliers d)"
proof -
  from assms obtain s where a: "get_supplier d pid = Some s"
    and d': "d' = put_supplier (accepted s (latest (supplier_sent d pid))) d"
    by (auto simp: accept_result split: option.splits)
  have k: "sup_id s = pid" using a by (rule get_supplier_key)
  then have r: "sup_id (accepted s (latest (supplier_sent d pid))) = pid"
    by (simp add: accepted_def)
  show ?thesis
  proof (rule that [OF a])
    show "get_supplier d' pid = Some (accepted s (latest (supplier_sent d pid)))"
      unfolding d' using a r by (simp add: get_supplier_put_same)
    show "get_supplier d' q = get_supplier d q" if "q \<noteq> pid" for q
      unfolding d' using that r by (simp add: get_supplier_put_other)
    show "sessions d' = sessions d" "messages d' = messages d" unfolding d' by simp_all
    show "suppliers d' = map (\<lambda>x. if sup_id x = pid then accepted s (latest (supplier_sent d pid)) else x) (suppliers d)"
      unfolding d' using r by (simp add: put_supplier_def)
  qed
qed


lemma latest_None: "latest ms = None \<longleftrightarrow> ms = []"
  by (cases ms) (auto split: option.splits if_splits)

lemma create_suppliers_grows:
  "create_suppliers env now req requirements sid names d = (d', r) \<Longrightarrow>
   sessions d' = sessions d \<and>
   (\<exists>new. suppliers d' = suppliers d @ new \<and>
      (\<forall>s\<in>set new. negotiation_round s = 0 \<and> final_price s = None \<and> status s = ''pending''))"
proof (induction names arbitrary: d)
  case Nil
  then show ?case by simp
next
  case (Cons name names)
  show ?case
  proof (cases "Option.bind (json_get requirements ''industry_category'' (JStr ''general''))
                  json_text")
    case None
    with Cons.prems have "d' = d" by simp
    then show ?thesis by simp
  next
    case ind: (Some ind)
    let ?s = "\<lparr>sup_id = next_id (map sup_id (suppliers d)), session_id = sid,
               company_name = name, industry = ind,
               initial_price = None, final_price = None, status = ''pending'',
               negotiation_round = 0, sup_created_at = now\<rparr>"
    show ?thesis
    proof (cases "initial_request_completion env (opportunity req) requirements name
                    (additionalRequirements req)")
      case None
      with Cons.prems ind have "d' = d\<lparr>suppliers := suppliers d @ [?s]\<rparr>"
        by (simp add: Let_def)
      then show ?thesis by simp
    next
      case (Some initial_message)
      let ?d2 = "d\<lparr>suppliers := suppliers d @ [?s],
                   messages := messages d @
                     [\<lparr>msg_id = next_id (map msg_id (messages d)),
                       supplier_id = next_id (map sup_id (suppliers d)), sender = ''buyer'',
                       content = initial_message, price_mentioned = None,
                       created_at = now\<rparr>]\<rparr>"
      from Cons.prems Some ind have
        "create_suppliers env now req requirements sid names ?d2 = (d', r)"
        by (simp add: Let_def)
      from Cons.IH [OF this] obtain new where
        "sessions d' = sessions d" "suppliers d' = (suppliers d @ [?s]) @ new"
        "\<forall>s\<in>set new. negotiation_round s = 0 \<and> final_price s = None \<and> status s = ''pending''"
        by auto
      then have "suppliers d' = suppliers d @ (?s # new) \<and>
         (\<forall>s\<in>set (?s # new).
             negotiation_round s = 0 \<and> final_price s = None \<and> status s = ''pending'')"
        by simp
      with \<open>sessions d' = sessions d\<close> show ?thesis by blast
    qed
  qed
qed

lemma create_negotiation_grows:
  assumes "create_negotiation env now req d = (d', r)"
  shows "\<exists>new. suppliers d' = suppliers d @ new \<and>
      (\<forall>s\<in>set new. negotiation_round s = 0 \<and> final_price s = None \<and> status s = ''pending'')"
proof -
  have triv: "\<exists>new. suppliers d0 = suppliers d0 @ new \<and>
      (\<forall>s\<in>set new. negotiation_round s = 0 \<and> final_price s = None \<and> status s = ''pending'')"
    for d0 :: db
    by (rule exI [of _ "[]"]) simp
  show ?thesis
    using assms triv [of d]
    by (auto simp: create_negotiation_def Let_def
             split: option.splits dest!: create_suppliers_grows)
qed



lemma reply_1500: "extract_price_from_message ''Total: $1,500'' = Some 1500"
proof -
  have l: "lower ''Total: $1,500'' = ''total: $1,500''" by code_simp
  have f: "map (\<lambda>p. findall p ''total: $1,500'') patterns = [[''1,500''], [], [], [], []]"
    by code_simp
  have fb: "findall dollar_amount ''Total: $1,500'' = [''1,500'']" by code_simp
  show ?thesis by (simp add: extract_by_parts [OF l f fb] float_eval)
qed

lemma reply_1400: "extract_price_from_message ''Total: $1,400'' = Some 1400"
proof -
  have l: "lower ''Total: $1,400'' = ''total: $1,400''" by code_simp
  have f: "map (\<lambda>p. findall p ''total: $1,400'') patterns = [[''1,400''], [], [], [], []]"
    by code_simp
  have fb: "findall dollar_amount ''Total: $1,400'' = [''1,400'']" by code_simp
  show ?thesis by (simp add: extract_by_parts [OF l f fb] float_eval)
qed

lemma py_str_1: "py_str 1 = ''1''" by code_simp
lemma py_str_2: "py_str 2 = ''2''" by code_simp

lemmas sample_eval =
  respond_to_supplier_def get_session_def get_supplier_def sample_db_def sample_session_def
  sample_supplier_def sample_request_def sample_services_def supplier_sent_def messages_of_def
  generate_supplier_response_def generate_negotiation_response_def price_multiplier_def
  put_supplier_def next_id_def price_or_def reply_1500 reply_1400 Let_def py_str_1 py_str_2
  supplier_view_def

lemma sample_db_created:
  "create_negotiation sample_services 0 (sample_order 5000)
     (fst (create_negotiation sample_services 0 (sample_order 1000) empty_db)) = (sample_db, None)"
  by (simp add: create_negotiation_def extract_requirements_from_opportunity_def sample_eval
        sample_order_def json_item_def json_text_def json_get_def supplier_names_def slice_to_def
        pad_names.simps empty_db_def)

lemma reachable_sample_db: "reachable sample_db"
proof -
  obtain d1 r1 where c1: "create_negotiation sample_services 0 (sample_order 1000) empty_db = (d1, r1)"
    by (cases "create_negotiation sample_services 0 (sample_order 1000) empty_db")
  have "reachable d1" using reachable.init c1 by (rule reachable.create)
  moreover have "create_negotiation sample_services 0 (sample_order 5000) d1 = (sample_db, None)"
    using sample_db_created c1 by simp
  ultimately show ?thesis by (rule reachable.create)
qed

lemma rounds_reachable:
  "reachable d \<Longrightarrow> \<forall>s\<in>set (suppliers d). 0 \<le> negotiation_round s \<and> negotiation_round s \<le> 2"
proof (induction rule: reachable.induct)
  case init
  show ?case by (simp add: empty_db_def)
next
  case (create d env now req d' r)
  from create_negotiation_grows [OF create.hyps(2)] obtain new where
    "suppliers d' = suppliers d @ new" "\<forall>s\<in>set new. negotiation_round s = 0"
    by blast
  with create.IH show ?case by auto
next
  case (respond d env now sid pid d')
  from respond.hyps(2) obtain s response price where
    g: "get_supplier d pid = Some s" and
    l: "suppliers d' = map (\<lambda>x. if sup_id x = pid
                                  then responded s (supplier_sent d pid = []) response price
                                  else x) (suppliers d)"
    by (rule respond_success)
  from g have "s \<in> set (suppliers d)"
    by (auto simp: get_supplier_def find_Some_iff)
  with respond.IH have "0 \<le> negotiation_round s \<and> negotiation_round s \<le> 2" by blast
  then have "0 \<le> negotiation_round (responded s (supplier_sent d pid = []) response price) \<and>
             negotiation_round (responded s (supplier_sent d pid = []) response price) \<le> 2"
    by (simp add: responded_def)
  with respond.IH show ?case unfolding l by auto
next
  case (accept d sid pid d')
  from accept.hyps(2) obtain s where
    l: "suppliers d' = map (\<lambda>x. if sup_id x = pid
                                  then accepted s (latest (supplier_sent d pid)) else x)
                          (suppliers d)"
    and g: "get_supplier d pid = Some s"
    by (rule accept_success)
  from g have "s \<in> set (suppliers d)"
    by (auto simp: get_supplier_def find_Some_iff)
  with accept.IH have "0 \<le> negotiation_round s \<and> negotiation_round s \<le> 2" by blast
  then have "0 \<le> negotiation_round (accepted s (latest (supplier_sent d pid))) \<and>
             negotiation_round (accepted s (latest (supplier_sent d pid))) \<le> 2"
    by (simp add: accepted_def)
  with accept.IH show ?case unfolding l by auto
qed

text \<open>
  C6. In every state that creations, responses and acceptances lead to from the empty database,
  the negotiation round of each supplier lies between 0 and 2. A creation adds suppliers at
  round 0 and leaves the others as they are; a response raises the round of its supplier by
  one when it was below 2 and leaves it otherwise, and touches no other supplier; an
  acceptance changes no round.
\<close>

theorem negotiation_round_bounded:
  "(reachable d \<longrightarrow>
      (\<forall>s\<in>set (suppliers d). 0 \<le> negotiation_round s \<and> negotiation_round s \<le> 2)) \<and>
   (create_negotiation env now req d = (d1, r) \<longrightarrow>
      (\<exists>new. suppliers d1 = suppliers d @ new \<and> (\<forall>s\<in>set new. negotiation_round s = 0))) \<and>
   (respond_to_supplier env now sid pid d = Inr d2 \<longrightarrow>
      (\<exists>s s'. get_supplier d pid = Some s \<and> get_supplier d2 pid = Some s' \<and>
         negotiation_round s' =
           (if negotiation_round s < 2 then negotiation_round s + 1 else negotiation_round s)) \<and>
      (\<forall>q. q \<noteq> pid \<longrightarrow> get_supplier d2 q = get_supplier d q)) \<and>
   (accept_quote sid pid d = Inr d3 \<longrightarrow>
      (\<exists>s s'. get_supplier d pid = Some s \<and> get_supplier d3 pid = Some s' \<and>
         negotiation_round s' = negotiation_round s) \<and>
      (\<forall>q. q \<noteq> pid \<longrightarrow> get_supplier d3 q = get_supplier d q))"
proof (intro conjI impI)
  assume "reachable d"
  then show "\<forall>s\<in>set (suppliers d). 0 \<le> negotiation_round s \<and> negotiation_round s \<le> 2"
    by (rule rounds_reachable)
next
  assume "create_negotiation env now req d = (d1, r)"
  from create_negotiation_grows [OF this]
  show "\<exists>new. suppliers d1 = suppliers d @ new \<and> (\<forall>s\<in>set new. negotiation_round s = 0)"
    by blast
next
  assume a: "respond_to_supplier env now sid pid d = Inr d2"
  from a obtain s response price where
    "get_supplier d pid = Some s"
    "get_supplier d2 pid = Some (responded s (supplier_sent d pid = []) response price)"
    by (rule respond_success)
  then show "\<exists>s s'. get_supplier d pid = Some s \<and> get_supplier d2 pid = Some s' \<and>
         negotiation_round s' =
           (if negotiation_round s < 2 then negotiation_round s + 1 else negotiation_round s)"
    by (simp add: responded_def)
  from a show "\<forall>q. q \<noteq> pid \<longrightarrow> get_supplier d2 q = get_supplier d q"
    by (rule respond_success) blast
next
  assume a: "accept_quote sid pid d = Inr d3"
  from a obtain s where
    "get_supplier d pid = Some s"
    "get_supplier d3 pid = Some (accepted s (latest (supplier_sent d pid)))"
    by (rule accept_success)
  then show "\<exists>s s'. get_supplier d pid = Some s \<and> get_supplier d3 pid = Some s' \<and>
         negotiation_round s' = negotiation_round s"
    by (simp add: accepted_def)
  from a show "\<forall>q. q \<noteq> pid \<longrightarrow> get_supplier d3 q = get_supplier d q"
    by (rule accept_success) blast
qed

theorem negotiation_round_bounded_witness:
  "reachable sample_db \<and>
   0 \<le> negotiation_round (sample_supplier 1 1) \<and> negotiation_round (sample_supplier 1 1) \<le> 2 \<and>
   take 2 (suppliers (fst (create_negotiation sample_services 0 (sample_order 5000) sample_db))) =
     suppliers sample_db \<and>
   map_option fst (supplier_view (respond_to_supplier sample_services 0 1 1 sample_db) 1) =
     Some 1 \<and>
   map_option fst (supplier_view (respond_to_supplier sample_services 0 1 1 sample_db) 2) =
     Some 0 \<and>
   map_option fst (supplier_view (accept_quote 1 1 sample_db) 1) = Some 0"
proof -
  obtain c r0 where
    c: "create_negotiation sample_services 0 (sample_order 5000) sample_db = (c, r0)"
    by (cases "create_negotiation sample_services 0 (sample_order 5000) sample_db")
  have "\<exists>d2. respond_to_supplier sample_services 0 1 1 sample_db = Inr d2"
    by (simp add: sample_eval)
  then obtain d2 where r: "respond_to_supplier sample_services 0 1 1 sample_db = Inr d2" ..
  have "\<exists>d3. accept_quote 1 1 sample_db = Inr d3"
    by (simp add: accept_quote_def sample_eval)
  then obtain d3 where a: "accept_quote 1 1 sample_db = Inr d3" ..
  note t = negotiation_round_bounded
             [where d = sample_db and env = sample_services and now = 0 and
                req = "sample_order 5000" and ?d1.0 = c and r = r0 and sid = 1 and pid = 1 and
                ?d2.0 = d2 and ?d3.0 = d3]
  have g1: "get_supplier sample_db 1 = Some (sample_supplier 1 1)"
    and g2: "get_supplier sample_db 2 = Some (sample_supplier 2 2)"
    by (simp_all add: get_supplier_def sample_db_def sample_supplier_def)
  have m: "sample_supplier 1 1 \<in> set (suppliers sample_db)"
    by (simp add: sample_db_def)
  have inv: "0 \<le> negotiation_round (sample_supplier 1 1) \<and>
             negotiation_round (sample_supplier 1 1) \<le> 2"
    using t reachable_sample_db m by blast
  have cr: "take 2 (suppliers (fst (create_negotiation sample_services 0 (sample_order 5000)
                                      sample_db))) = suppliers sample_db"
  proof -
    from t c obtain new where "suppliers c = suppliers sample_db @ new" by blast
    then show ?thesis using c by (simp add: sample_db_def)
  qed
  have rv: "map_option fst (supplier_view (respond_to_supplier sample_services 0 1 1 sample_db) 1)
              = Some 1"
  proof -
    from t r obtain s s' where "get_supplier sample_db 1 = Some s" "get_supplier d2 1 = Some s'"
      "negotiation_round s' =
         (if negotiation_round s < 2 then negotiation_round s + 1 else negotiation_round s)"
      by blast
    with g1 have "get_supplier d2 1 = Some s'" "negotiation_round s' = 1"
      by (simp_all add: sample_supplier_def)
    then show ?thesis using r by (simp add: supplier_view_def)
  qed
  have ro: "map_option fst (supplier_view (respond_to_supplier sample_services 0 1 1 sample_db) 2)
              = Some 0"
  proof -
    from t r have "get_supplier d2 2 = get_supplier sample_db 2" by simp
    then show ?thesis using r g2 by (simp add: supplier_view_def sample_supplier_def)
  qed
  have av: "map_option fst (supplier_view (accept_quote 1 1 sample_db) 1) = Some 0"
  proof -
    from t a obtain s s' where "get_supplier sample_db 1 = Some s" "get_supplier d3 1 = Some s'"
      "negotiation_round s' = negotiation_round s"
      by blast
    with g1 have "get_supplier d3 1 = Some s'" "negotiation_round s' = 0"
      by (simp_all add: sample_supplier_def)
    then show ?thesis using a by (simp add: supplier_view_def)
  qed
  from reachable_sample_db inv cr rv ro av show ?thesis by blast
qed

lemma respond_adds_reply:
  assumes "respond_to_supplier env now sid pid d = Inr d'"
  shows "supplier_sent d' pid \<noteq> []"
proof -
  from assms obtain m rest where
    "messages d' = messages d @ m # rest" "supplier_id m = pid" "sender m = ''supplier''"
    by (rule respond_success) blast
  then show ?thesis by (simp add: supplier_sent_def)
qed

text \<open>
  C1, as the code has it. A supplier at round 0 without a reply of its own is, after two
  successful responses, at round 2 with the status \<^verbatim>\<open>negotiating\<close>, and its final price is
  what it was before: the second response still finds the round below 2 and sends the buyer's
  counter instead. It is the next response, made at round 2, that sets the final price; the
  round stays 2 and the status stays \<^verbatim>\<open>negotiating\<close>.
\<close>

theorem round_progression:
  assumes "get_supplier d pid = Some s"
    and "negotiation_round s = 0"
    and "supplier_sent d pid = []"
    and "respond_to_supplier env1 t1 sid1 pid d = Inr d1"
    and "respond_to_supplier env2 t2 sid2 pid d1 = Inr d2"
  shows "\<exists>s2. get_supplier d2 pid = Some s2 \<and> negotiation_round s2 = 2 \<and>
           status s2 = ''negotiating'' \<and> final_price s2 = final_price s \<and>
           (\<forall>env3 t3 sid3 d3. respond_to_supplier env3 t3 sid3 pid d2 = Inr d3 \<longrightarrow>
              (\<exists>s3. get_supplier d3 pid = Some s3 \<and> negotiation_round s3 = 2 \<and>
                 status s3 = ''negotiating'' \<and> final_price s3 \<noteq> None))"
proof -
  from assms(4) obtain r1 p1 where
    "get_supplier d1 pid = Some (responded s (supplier_sent d pid = []) r1 p1)"
    by (rule respond_success) (use assms(1) in simp)
  then have g1: "get_supplier d1 pid = Some (responded s True r1 p1)"
    using assms(3) by simp
  have n1: "supplier_sent d1 pid \<noteq> []" using assms(4) by (rule respond_adds_reply)
  from assms(5) obtain r2 p2 where
    "get_supplier d2 pid = Some (responded (responded s True r1 p1) (supplier_sent d1 pid = []) r2 p2)"
    by (rule respond_success) (use g1 in simp)
  then have g2: "get_supplier d2 pid = Some (responded (responded s True r1 p1) False r2 p2)"
    using n1 by simp
  let ?s2 = "responded (responded s True r1 p1) False r2 p2"
  have f2: "negotiation_round ?s2 = 2" "status ?s2 = ''negotiating''"
    "final_price ?s2 = final_price s"
    using assms(2) by (simp_all add: responded_def)
  have third: "\<exists>s3. get_supplier d3 pid = Some s3 \<and> negotiation_round s3 = 2 \<and>
                 status s3 = ''negotiating'' \<and> final_price s3 \<noteq> None"
    if a: "respond_to_supplier env3 t3 sid3 pid d2 = Inr d3" for env3 t3 sid3 d3
  proof -
    have n2: "supplier_sent d2 pid \<noteq> []" using assms(5) by (rule respond_adds_reply)
    from a obtain r3 p3 where
      "get_supplier d3 pid = Some (responded ?s2 (supplier_sent d2 pid = []) r3 p3)"
      by (rule respond_success) (use g2 in simp)
    then have "get_supplier d3 pid = Some (responded ?s2 False r3 p3)" using n2 by simp
    moreover have "negotiation_round (responded ?s2 False r3 p3) = 2"
      "status (responded ?s2 False r3 p3) = ''negotiating''"
      "final_price (responded ?s2 False r3 p3) \<noteq> None"
      using f2 by (simp_all add: responded_def)
    ultimately show ?thesis by blast
  qed
  from g2 f2 third show ?thesis by blast
qed

text \<open>
  C1, as the specification words it, fails on the sample database: after two responses the
  supplier is at round 2 and negotiating, and has no final price.
\<close>

theorem two_advances_leave_final_price_unset:
  "supplier_view (Inr sample_db) 1 = Some (0, ''pending'', None) \<and>
   supplier_sent sample_db 1 = [] \<and>
   supplier_view (respond_times sample_services 1 1 1 2 sample_db) 1 =
     Some (2, ''negotiating'', None)"
  by (simp add: eval_nat_numeral sample_eval)

theorem round_progression_witness:
  "get_supplier sample_db 1 = Some (sample_supplier 1 1) \<and>
   negotiation_round (sample_supplier 1 1) = 0 \<and>
   supplier_sent sample_db 1 = [] \<and>
   supplier_view (respond_times sample_services 1 1 1 2 sample_db) 1 =
     Some (2, ''negotiating'', final_price (sample_supplier 1 1)) \<and>
   map_option fst (supplier_view (respond_times sample_services 1 1 1 3 sample_db) 1) = Some 2 \<and>
   map_option (snd \<circ> snd) (supplier_view (respond_times sample_services 1 1 1 3 sample_db) 1)
     \<noteq> Some None"
proof -
  have g: "get_supplier sample_db 1 = Some (sample_supplier 1 1)"
    and n: "negotiation_round (sample_supplier 1 1) = 0"
    and e: "supplier_sent sample_db 1 = []"
    by (simp_all add: get_supplier_def supplier_sent_def sample_db_def sample_supplier_def
          sample_request_def)
  have "\<exists>d3. respond_times sample_services 1 1 1 3 sample_db = Inr d3"
    by (simp add: eval_nat_numeral sample_eval)
  then obtain d3 where r3: "respond_times sample_services 1 1 1 3 sample_db = Inr d3" ..
  then obtain d1 d2 where
    r1: "respond_to_supplier sample_services 1 1 1 sample_db = Inr d1" and
    r2: "respond_to_supplier sample_services 2 1 1 d1 = Inr d2" and
    r3': "respond_to_supplier sample_services 3 1 1 d2 = Inr d3"
    by (auto simp: eval_nat_numeral split: sum.splits)
  from round_progression [OF g n e r1 r2] obtain s2 where
    s2: "get_supplier d2 1 = Some s2" "negotiation_round s2 = 2" "status s2 = ''negotiating''"
        "final_price s2 = final_price (sample_supplier 1 1)"
    and nxt: "\<forall>env3 t3 sid3 d3. respond_to_supplier env3 t3 sid3 1 d2 = Inr d3 \<longrightarrow>
              (\<exists>s3. get_supplier d3 1 = Some s3 \<and> negotiation_round s3 = 2 \<and>
                 status s3 = ''negotiating'' \<and> final_price s3 \<noteq> None)"
    by blast
  from nxt r3' obtain s3 where
    s3: "get_supplier d3 1 = Some s3" "negotiation_round s3 = 2" "final_price s3 \<noteq> None"
    by blast
  have two: "respond_times sample_services 1 1 1 2 sample_db = Inr d2"
    using r1 r2 by (simp add: eval_nat_numeral)
  have v2: "supplier_view (respond_times sample_services 1 1 1 2 sample_db) 1 =
              Some (2, ''negotiating'', final_price (sample_supplier 1 1))"
    unfolding two using s2 by (simp add: supplier_view_def)
  have v3: "map_option fst (supplier_view (respond_times sample_services 1 1 1 3 sample_db) 1)
              = Some 2"
    "map_option (snd \<circ> snd) (supplier_view (respond_times sample_services 1 1 1 3 sample_db) 1)
       \<noteq> Some None"
    unfolding r3 using s3 by (simp_all add: supplier_view_def)
  from g n e v2 v3 show ?thesis by blast
qed









lemma supplier_sent_grows:
  assumes "messages d' = messages d @ m # rest" "supplier_id m = pid" "sender m = ''supplier''"
    "\<forall>b\<in>set rest. sender b = ''buyer''"
  shows "supplier_sent d' pid = supplier_sent d pid @ [m]"
proof -
  have "filter (\<lambda>m. supplier_id m = pid \<and> sender m = ''supplier'') rest = []"
    using assms(4) by (auto simp: filter_empty_conv)
  then show ?thesis using assms(1-3) by (simp add: supplier_sent_def)
qed

text \<open>
  C9. Neither request checks that the supplier belongs to the session of the route. For an
  existing session and a supplier of another session, a response succeeds whenever the
  requirements of that session load and the completion service answers: it advances the
  supplier, stores a reply under it, and computes the suggested price from the target price
  and the requirements of the session named in the route. An acceptance completes the supplier
  whatever session the route names.
\<close>

theorem session_membership_unchecked:
  assumes "get_session d sid = Some session"
    and "get_supplier d pid = Some s"
    and "session_id s \<noteq> sid"
    and "extracted_requirements session = Some txt"
    and "json_loads env txt = Some requirements"
    and "rnd = (if supplier_sent d pid = [] then 0 else negotiation_round s)"
    and "price = target_price session * price_multiplier (py_hash env) (company_name s) rnd"
    and "supplier_completion env (company_name s) requirements (messages_of d pid) rnd price =
           Some reply"
    and "\<forall>msgs k. buyer_completion env msgs requirements k \<noteq> None"
  shows "(\<exists>d' s'. respond_to_supplier env now sid pid d = Inr d' \<and>
            get_supplier d' pid = Some s' \<and> session_id s' = session_id s \<and>
            negotiation_round s' =
              (if negotiation_round s < 2 then negotiation_round s + 1 else negotiation_round s) \<and>
            (supplier_sent d pid = [] \<longrightarrow>
               initial_price s' = Some price \<and> status s' = ''negotiating'') \<and>
            (2 \<le> negotiation_round s \<longrightarrow>
               final_price s' = Some (price_or (extract_price_from_message reply) price)) \<and>
            (\<exists>m. supplier_sent d' pid = supplier_sent d pid @ [m] \<and> content m = reply \<and>
               price_mentioned m = Some (price_or (extract_price_from_message reply) price))) \<and>
         (\<exists>d'' s''. accept_quote sid pid d = Inr d'' \<and> get_supplier d'' pid = Some s'' \<and>
            session_id s'' = session_id s \<and> status s'' = ''completed'')"
proof (rule conjI)
  have gen: "generate_supplier_response env (company_name s) requirements (messages_of d pid)
               rnd (target_price session) = Some (reply, price)"
    using assms(7,8) by (simp add: generate_supplier_response_def)
  have "\<exists>d'. respond_to_supplier env now sid pid d = Inr d'"
  proof (cases "negotiation_round s < 2")
    case True
    with assms(9) obtain b where
      "buyer_completion env
         (messages_of d pid @
            [\<lparr>msg_id = next_id (map msg_id (messages d)), supplier_id = pid,
              sender = ''supplier'', content = reply,
              price_mentioned = Some (price_or (extract_price_from_message reply) price),
              created_at = now\<rparr>])
         requirements (negotiation_round s + 1) = Some b"
      by (meson option.exhaust)
    with True assms(1,2,4,5) gen assms(6) show ?thesis
      by (simp add: respond_to_supplier_def generate_negotiation_response_def Let_def)
  next
    case False
    with assms(1,2,4,5) gen assms(6) show ?thesis
      by (simp add: respond_to_supplier_def Let_def)
  qed
  then obtain d' where r: "respond_to_supplier env now sid pid d = Inr d'" ..
  from r obtain session0 s0 requirements0 response0 price0 where
    f: "get_session d sid = Some session0" "get_supplier d pid = Some s0"
       "Option.bind (extracted_requirements session0) (json_loads env) = Some requirements0"
       "generate_supplier_response env (company_name s0) requirements0 (messages_of d pid)
          (if supplier_sent d pid = [] then 0 else negotiation_round s0) (target_price session0) =
          Some (response0, price0)"
       "get_supplier d' pid = Some (responded s0 (supplier_sent d pid = []) response0 price0)"
    and ms: "\<exists>m rest. messages d' = messages d @ m # rest \<and> supplier_id m = pid \<and>
           sender m = ''supplier'' \<and> content m = response0 \<and>
           price_mentioned m = Some (quoted_price response0 price0) \<and>
           (\<forall>b\<in>set rest. sender b = ''buyer'')"
    by (rule respond_success)
  from f(1,2) assms(1,2) have e1: "session0 = session" "s0 = s" by simp_all
  from f(3) assms(4,5) e1 have e2: "requirements0 = requirements" by simp
  have "Some (response0, price0) = Some (reply, price)"
    using f(4) [unfolded e1 e2] gen [unfolded assms(6)] by (rule trans [OF sym])
  then have e3: "response0 = reply" "price0 = price" by simp_all
  let ?s' = "responded s (supplier_sent d pid = []) reply price"
  have g: "get_supplier d' pid = Some ?s'" using f(5) e1 e3 by simp
  from ms obtain m rest where
    m: "messages d' = messages d @ m # rest" "supplier_id m = pid" "sender m = ''supplier''"
       "content m = reply" "price_mentioned m = Some (quoted_price reply price)"
       "\<forall>b\<in>set rest. sender b = ''buyer''"
    unfolding e3 by blast
  have sg: "supplier_sent d' pid = supplier_sent d pid @ [m]"
    using m(1,2,3,6) by (rule supplier_sent_grows)
  show "\<exists>d' s'. respond_to_supplier env now sid pid d = Inr d' \<and>
            get_supplier d' pid = Some s' \<and> session_id s' = session_id s \<and>
            negotiation_round s' =
              (if negotiation_round s < 2 then negotiation_round s + 1 else negotiation_round s) \<and>
            (supplier_sent d pid = [] \<longrightarrow>
               initial_price s' = Some price \<and> status s' = ''negotiating'') \<and>
            (2 \<le> negotiation_round s \<longrightarrow>
               final_price s' = Some (price_or (extract_price_from_message reply) price)) \<and>
            (\<exists>m. supplier_sent d' pid = supplier_sent d pid @ [m] \<and> content m = reply \<and>
               price_mentioned m = Some (price_or (extract_price_from_message reply) price))"
  proof (intro exI conjI)
    show "respond_to_supplier env now sid pid d = Inr d'" by (rule r)
    show "get_supplier d' pid = Some ?s'" by (rule g)
    show "session_id ?s' = session_id s" by (simp add: responded_def)
    show "negotiation_round ?s' =
            (if negotiation_round s < 2 then negotiation_round s + 1 else negotiation_round s)"
      by (simp add: responded_def)
    show "supplier_sent d pid = [] \<longrightarrow>
            initial_price ?s' = Some price \<and> status ?s' = ''negotiating''"
      by (simp add: responded_def)
    show "2 \<le> negotiation_round s \<longrightarrow>
            final_price ?s' = Some (price_or (extract_price_from_message reply) price)"
      by (simp add: responded_def quoted_price_def)
    show "supplier_sent d' pid = supplier_sent d pid @ [m]" by (rule sg)
    show "content m = reply" by (rule m(4))
    show "price_mentioned m = Some (price_or (extract_price_from_message reply) price)"
      using m(5) by (simp add: quoted_price_def)
  qed
next
  let ?a = "accepted s (latest (supplier_sent d pid))"
  have k: "sup_id ?a = pid"
    using get_supplier_key [OF assms(2)] by (simp add: accepted_def)
  show "\<exists>d'' s''. accept_quote sid pid d = Inr d'' \<and> get_supplier d'' pid = Some s'' \<and>
            session_id s'' = session_id s \<and> status s'' = ''completed''"
  proof (intro exI conjI)
    show "accept_quote sid pid d = Inr (put_supplier ?a d)"
      using assms(2) by (simp add: accept_result)
    show "get_supplier (put_supplier ?a d) pid = Some ?a"
      using assms(2) k by (rule get_supplier_put_same)
    show "session_id ?a = session_id s" "status ?a = ''completed''"
      by (simp_all add: accepted_def)
  qed
qed

theorem session_membership_unchecked_witness:
  "session_id (sample_supplier 1 1) \<noteq> 2 \<and>
   target_price (sample_session 2 5000) = 5000 \<and>
   supplier_prices (respond_to_supplier sample_services 1 2 1 sample_db) 1 =
     Some (Some 8650, None) \<and>
   map_option fst (supplier_view (respond_to_supplier sample_services 1 2 1 sample_db) 1) =
     Some 1 \<and>
   map_option (fst \<circ> snd) (supplier_view (accept_quote 2 1 sample_db) 1) = Some ''completed''"
proof -
  have a1: "get_session sample_db 2 = Some (sample_session 2 5000)"
    by (simp add: get_session_def sample_db_def sample_session_def)
  have a2: "get_supplier sample_db 1 = Some (sample_supplier 1 1)"
    by (simp add: get_supplier_def sample_db_def sample_supplier_def)
  have a3: "session_id (sample_supplier 1 1) \<noteq> 2" by (simp add: sample_supplier_def)
  have a4: "extracted_requirements (sample_session 2 5000) = Some ''{}''"
    by (simp add: sample_session_def)
  have a5: "json_loads sample_services ''{}'' = Some (JObj [])"
    by (simp add: sample_services_def)
  have a6: "(0::int) = (if supplier_sent sample_db 1 = [] then 0
                        else negotiation_round (sample_supplier 1 1))"
    by (simp add: supplier_sent_def sample_db_def sample_request_def)
  have a7: "(8650::real) = target_price (sample_session 2 5000) *
              price_multiplier (py_hash sample_services) (company_name (sample_supplier 1 1)) 0"
    by (simp add: sample_session_def sample_supplier_def sample_services_def
          price_multiplier_def)
  have a8: "supplier_completion sample_services (company_name (sample_supplier 1 1)) (JObj [])
              (messages_of sample_db 1) 0 8650 = Some ''Total: $1,500''"
    by (simp add: sample_services_def messages_of_def sample_db_def sample_request_def)
  have a9: "\<forall>msgs k. buyer_completion sample_services msgs (JObj []) k \<noteq> None"
    by (simp add: sample_services_def)
  have e: "supplier_sent sample_db 1 = []"
    by (simp add: supplier_sent_def sample_db_def sample_request_def)
  note t = session_membership_unchecked [OF a1 a2 a3 a4 a5 a6 a7 a8 a9, of 1]
  from t [THEN conjunct1] obtain d' s' where
    "respond_to_supplier sample_services 1 2 1 sample_db = Inr d'"
    "get_supplier d' 1 = Some s'"
    "session_id s' = session_id (sample_supplier 1 1)"
    "negotiation_round s' =
       (if negotiation_round (sample_supplier 1 1) < 2
        then negotiation_round (sample_supplier 1 1) + 1
        else negotiation_round (sample_supplier 1 1))"
    "supplier_sent sample_db 1 = [] \<longrightarrow>
       initial_price s' = Some 8650 \<and> status s' = ''negotiating''"
    by (elim exE conjE) (rule that; assumption)
  moreover have "supplier_prices (respond_to_supplier sample_services 1 2 1 sample_db) 1 =
                   Some (Some 8650, None)"
    by (simp add: supplier_prices_def sample_eval)
  ultimately have v1: "supplier_prices (respond_to_supplier sample_services 1 2 1 sample_db) 1 =
                   Some (Some 8650, None)"
    and v2: "map_option fst
               (supplier_view (respond_to_supplier sample_services 1 2 1 sample_db) 1) = Some 1"
    by (simp_all add: supplier_view_def sample_supplier_def)
  from t [THEN conjunct2] obtain d'' s'' where
    "accept_quote 2 1 sample_db = Inr d''" "get_supplier d'' 1 = Some s''"
    "session_id s'' = session_id (sample_supplier 1 1)" "status s'' = ''completed''"
    by (elim exE conjE) (rule that; assumption)
  then have v3: "map_option (fst \<circ> snd) (supplier_view (accept_quote 2 1 sample_db) 1) =
                   Some ''completed''"
    by (simp add: supplier_view_def)
  have v0: "target_price (sample_session 2 5000) = 5000" by (simp add: sample_session_def)
  from a3 v0 v1 v2 v3 show ?thesis by blast
qed

end
